theory Spec2Isabelle
  imports Main "HOL-Library.Word"
begin

section \<open>The StreamPump adapter of src/test.js\<close>

text \<open>
  \<^verbatim>\<open>StreamPump\<close> bridges a push source (a Node event emitter with optional
  \<^verbatim>\<open>pause\<close>, \<^verbatim>\<open>resume\<close> and \<^verbatim>\<open>destroy\<close> methods) to a pull sink (the
  controller that \<^verbatim>\<open>start\<close> receives). The class is embedded as functions on a
  record of its four fields. The source and the sink are objects of the platform: the
  model keeps, for each, the trace of the calls the adapter makes on it, and for the
  source the adapter's own subscriptions.
\<close>

subsection \<open>Values, chunks and exceptions\<close>

type_synonym bytes = "8 word list"

text \<open>
  A value handed around without being inspected by the adapter: the argument of the
  source's error event, the reason of \<^verbatim>\<open>cancel\<close>, the argument of the sink's
  \<^verbatim>\<open>error\<close>. \<open>ErrorObj m\<close> is \<^verbatim>\<open>new Error(m)\<close>.
\<close>

datatype js_value = Undefined | ErrorObj string | Opaque nat

datatype exn = ReferenceError string | TypeError string

text \<open>
  A chunk of the data event, classified by what line 193 does with it:
  \<^verbatim>\<open>chunk instanceof Uint8Array ? chunk : Buffer.from(chunk)\<close>.
  \<open>Uint8Array b\<close> is passed on as it is, \<open>BufferFrom b\<close> is a value on which the
  platform's \<^verbatim>\<open>Buffer.from\<close> returns the buffer \<open>b\<close>, \<open>NotBinary\<close> one on which
  it throws.
\<close>

datatype chunk = Uint8Array bytes | BufferFrom bytes | NotBinary

fun to_bytes :: "chunk \<Rightarrow> exn + bytes" where
  "to_bytes (Uint8Array b) = Inr b"
| "to_bytes (BufferFrom b) = Inr b"
| "to_bytes NotBinary = Inl (TypeError ''The first argument must be of type string or an instance of Buffer, ArrayBuffer, or Array or an Array-like Object'')"

subsection \<open>The source\<close>

datatype event_name = EvData | EvError | EvEnd | EvClose

datatype src_call = Pause | Resume | Destroy js_value

text \<open>
  \<open>listeners\<close> holds the adapter's subscriptions in registration order, one entry per
  registration. \<^verbatim>\<open>start\<close> is the only place that subscribes, always the same
  bound method per event (\<^verbatim>\<open>enqueue\<close> to data, \<^verbatim>\<open>error\<close> to error,
  \<^verbatim>\<open>close\<close> to end and to close), so an entry is the event's name.
  \<open>calls\<close> is the trace of the method calls the source has received. The \<open>has_\<close>
  fields say whether the object has the method; \<open>readable\<close> and
  \<open>readableHighWaterMark\<close> are the properties the adapter reads (\<open>None\<close>: the
  property is undefined).
\<close>

record source =
  readableHighWaterMark :: "nat option"
  readable :: bool
  has_pause :: bool
  has_resume :: bool
  has_destroy :: bool
  listeners :: "event_name list"
  calls :: "src_call list"

text \<open>
  Calling a method the object does not have throws a TypeError. A method the object has
  is recorded in \<open>calls\<close> and returns; what the source does with it afterwards (a
  destroyed Readable emits its close event on a later tick, when \<^verbatim>\<open>cancel\<close> has
  already unsubscribed) is the source's own business, and \<open>readable\<close> stays what the
  environment made it.
\<close>

definition src_pause :: "source \<Rightarrow> exn + source" where
  "src_pause s =
     (if has_pause s then Inr (s\<lparr>calls := calls s @ [Pause]\<rparr>)
      else Inl (TypeError ''this.stream.pause is not a function''))"

definition src_resume :: "source \<Rightarrow> exn + source" where
  "src_resume s =
     (if has_resume s then Inr (s\<lparr>calls := calls s @ [Resume]\<rparr>)
      else Inl (TypeError ''this.stream.resume is not a function''))"

definition src_destroy :: "js_value \<Rightarrow> source \<Rightarrow> exn + source" where
  "src_destroy reason s =
     (if has_destroy s then Inr (s\<lparr>calls := calls s @ [Destroy reason]\<rparr>)
      else Inl (TypeError ''this.stream.destroy is not a function''))"

text \<open>
  \<^verbatim>\<open>on\<close> and \<^verbatim>\<open>once\<close> append a subscription; \<^verbatim>\<open>off\<close> removes the most
  recently added one for that event and does nothing when there is none.
\<close>

definition src_on :: "event_name \<Rightarrow> source \<Rightarrow> source" where
  "src_on ev s = s\<lparr>listeners := listeners s @ [ev]\<rparr>"

definition src_once :: "event_name \<Rightarrow> source \<Rightarrow> source" where
  "src_once ev s = s\<lparr>listeners := listeners s @ [ev]\<rparr>"

definition src_off :: "event_name \<Rightarrow> source \<Rightarrow> source" where
  "src_off ev s = s\<lparr>listeners := rev (remove1 ev (rev (listeners s)))\<rparr>"

text \<open>
  The events \<^verbatim>\<open>start\<close> subscribes to with \<^verbatim>\<open>once\<close> (lines 170 to 172); data
  it subscribes to with \<^verbatim>\<open>on\<close> (line 169). A subscription made with \<^verbatim>\<open>once\<close>
  is removed when it is called.
\<close>

fun subscribed_once :: "event_name \<Rightarrow> bool" where
  "subscribed_once EvData = False"
| "subscribed_once EvError = True"
| "subscribed_once EvEnd = True"
| "subscribed_once EvClose = True"

subsection \<open>The sink\<close>

type_synonym ctrl = nat

datatype sink_call = SinkEnqueue bytes | SinkError js_value | SinkClose

subsection \<open>The adapter\<close>

text \<open>
  The four fields of the class, and \<open>sink\<close>: the trace of the calls made on
  controllers, each with the controller it was made on. The field \<open>controller\<close> is
  \<open>None\<close> before \<^verbatim>\<open>start\<close> and after \<^verbatim>\<open>delete this.controller\<close>.
\<close>

record pump =
  highWaterMark :: nat
  accumalatedSize :: nat
  stream :: source
  controller :: "ctrl option"
  sink :: "(ctrl \<times> sink_call) list"

text \<open>
  The names test.js binds at module level: its imports and its declarations.
  Reading any other name that is not a global of the platform throws a ReferenceError.
\<close>

definition module_scope :: "string list" where
  "module_scope =
     [''assert'', ''createServer'', ''test'', ''fs'', ''path'', ''File'', ''Readable'',
      ''fileURLToPath'', ''env'', ''testFile'', ''createBlobFromPath'', ''resolveFilePath'',
      ''convertRequest'', ''StreamPump'']"

text \<open>
  \<^verbatim>\<open>new Stream.Readable().readableHighWaterMark\<close>, with \<open>dflt\<close> the platform's
  default threshold of a Readable. \<^verbatim>\<open>Stream\<close> is no global of Node.
\<close>

definition default_high_water_mark :: "nat \<Rightarrow> exn + nat" where
  "default_high_water_mark dflt =
     (if List.member module_scope ''Stream'' then Inr dflt
      else Inl (ReferenceError ''Stream is not defined''))"

text \<open>Lines 152 to 161. \<^verbatim>\<open>||\<close> takes its right operand when the left one is
  undefined or 0, and evaluates it only then.\<close>

definition constructor :: "nat \<Rightarrow> source \<Rightarrow> exn + pump" where
  "constructor dflt s =
     (case (case readableHighWaterMark s of
              None \<Rightarrow> default_high_water_mark dflt
            | Some n \<Rightarrow> if n \<noteq> 0 then Inr n else default_high_water_mark dflt) of
        Inl e \<Rightarrow> Inl e
      | Inr h \<Rightarrow>
          Inr \<lparr>highWaterMark = h, accumalatedSize = 0, stream = s,
               controller = None, sink = []\<rparr>)"

text \<open>Lines 167 to 173.\<close>

definition start :: "ctrl \<Rightarrow> pump \<Rightarrow> pump" where
  "start c p =
     p\<lparr>controller := Some c,
       stream := src_once EvClose (src_once EvEnd (src_once EvError (src_on EvData (stream p))))\<rparr>"

text \<open>Lines 211 to 215.\<close>

definition pause :: "pump \<Rightarrow> exn + pump" where
  "pause p =
     (if has_pause (stream p)
      then (case src_pause (stream p) of Inl e \<Rightarrow> Inl e | Inr s \<Rightarrow> Inr (p\<lparr>stream := s\<rparr>))
      else Inr p)"

text \<open>Lines 217 to 221.\<close>

definition resume :: "pump \<Rightarrow> exn + pump" where
  "resume p =
     (if readable (stream p) \<and> has_resume (stream p)
      then (case src_resume (stream p) of Inl e \<Rightarrow> Inl e | Inr s \<Rightarrow> Inr (p\<lparr>stream := s\<rparr>))
      else Inr p)"

text \<open>Lines 175 to 177.\<close>

definition pull :: "pump \<Rightarrow> exn + pump" where
  "pull p = resume p"

text \<open>Lines 179 to 188. The four \<^verbatim>\<open>off\<close> calls run whether or not the
  source has \<^verbatim>\<open>destroy\<close>; the controller field is not touched.\<close>

definition unsubscribe :: "source \<Rightarrow> source" where
  "unsubscribe s = src_off EvClose (src_off EvEnd (src_off EvError (src_off EvData s)))"

definition cancel :: "js_value \<Rightarrow> pump \<Rightarrow> exn + pump" where
  "cancel reason p =
     (case (if has_destroy (stream p) then src_destroy reason (stream p) else Inr (stream p)) of
        Inl e \<Rightarrow> Inl e
      | Inr s \<Rightarrow> Inr (p\<lparr>stream := unsubscribe s\<rparr>))"

text \<open>
  A call of \<^verbatim>\<open>enqueue\<close>, \<^verbatim>\<open>error\<close> or \<^verbatim>\<open>close\<close> on the controller \<open>c\<close>:
  it is recorded in the sink's trace and returns. A controller of the platform refuses
  \<^verbatim>\<open>enqueue\<close> and \<^verbatim>\<open>close\<close> only once its stream is closed, errored or
  cancelled; the adapter closes and errors it only where it also drops the handle or
  unsubscribes, and the consumer cancels it through \<^verbatim>\<open>cancel\<close>, which unsubscribes.
\<close>

definition sink_call :: "ctrl \<Rightarrow> sink_call \<Rightarrow> pump \<Rightarrow> pump" where
  "sink_call c x p = p\<lparr>sink := sink p @ [(c, x)]\<rparr>"

definition conversion_error :: js_value where
  "conversion_error =
     ErrorObj ''Could not create Buffer, chunk must be of type string or an instance of Buffer, ArrayBuffer, or Array or an Array-like Object''"

text \<open>The catch block of lines 200 to 207.\<close>

definition enqueue_catch :: "ctrl \<Rightarrow> pump \<Rightarrow> exn + pump" where
  "enqueue_catch c p = cancel Undefined (sink_call c (SinkError conversion_error) p)"

text \<open>\<^verbatim>\<open>this.controller.desiredSize || 0\<close>: \<open>None\<close> is a reading of null or
  undefined.\<close>

definition desired_or_zero :: "int option \<Rightarrow> int" where
  "desired_or_zero d = (case d of None \<Rightarrow> 0 | Some n \<Rightarrow> if n \<noteq> 0 then n else 0)"

text \<open>
  Lines 190 to 209. \<open>desiredSize\<close> is what the controller's property of that name
  reads when the chunk arrives. Whatever the try block throws lands in the catch
  block, with the state as it is at the throw.
\<close>

definition enqueue :: "chunk \<Rightarrow> int option \<Rightarrow> pump \<Rightarrow> exn + pump" where
  "enqueue chunk desiredSize p =
     (case controller p of
        None \<Rightarrow> Inr p
      | Some c \<Rightarrow>
          (case to_bytes chunk of
             Inl e \<Rightarrow> enqueue_catch c p
           | Inr b \<Rightarrow>
               (let available = desired_or_zero desiredSize - int (length b);
                    p1 = sink_call c (SinkEnqueue b) p
                in if available \<le> 0
                   then (case pause p1 of Inl e \<Rightarrow> enqueue_catch c p1 | Inr p2 \<Rightarrow> Inr p2)
                   else Inr p1)))"

text \<open>Lines 223 to 228.\<close>

definition close :: "pump \<Rightarrow> pump" where
  "close p =
     (case controller p of
        None \<Rightarrow> p
      | Some c \<Rightarrow> (sink_call c SinkClose p)\<lparr>controller := None\<rparr>)"

text \<open>Lines 230 to 235.\<close>

definition error :: "js_value \<Rightarrow> pump \<Rightarrow> pump" where
  "error e p =
     (case controller p of
        None \<Rightarrow> p
      | Some c \<Rightarrow> (sink_call c (SinkError e) p)\<lparr>controller := None\<rparr>)"

subsection \<open>The source firing events\<close>

text \<open>
  An event of the source with its argument; a data event also carries what the
  controller's \<^verbatim>\<open>desiredSize\<close> reads at that moment.
\<close>

datatype event = Data chunk "int option" | Error js_value | End | Close

fun name_of :: "event \<Rightarrow> event_name" where
  "name_of (Data chunk d) = EvData"
| "name_of (Error e) = EvError"
| "name_of End = EvEnd"
| "name_of Close = EvClose"

text \<open>The method \<^verbatim>\<open>start\<close> subscribed to the event, called with its argument.\<close>

fun handler :: "event \<Rightarrow> pump \<Rightarrow> exn + pump" where
  "handler (Data chunk d) p = enqueue chunk d p"
| "handler (Error e) p = Inr (error e p)"
| "handler End p = Inr (close p)"
| "handler Close p = Inr (close p)"

text \<open>
  One subscription being called: one made with \<^verbatim>\<open>once\<close> is removed first, then
  the method runs.
\<close>

definition invoke :: "event \<Rightarrow> pump \<Rightarrow> exn + pump" where
  "invoke e p =
     handler e
       (if subscribed_once (name_of e) then p\<lparr>stream := src_off (name_of e) (stream p)\<rparr>
        else p)"

text \<open>
  \<^verbatim>\<open>emit\<close> calls the subscriptions that are registered for the event when it
  fires (\<open>n\<close> of them), in order; an exception of one ends the emit. Subscribers
  other than the adapter are left out: they touch neither the adapter nor its sink.
\<close>

fun invoke_all :: "nat \<Rightarrow> event \<Rightarrow> pump \<Rightarrow> exn + pump" where
  "invoke_all 0 e p = Inr p"
| "invoke_all (Suc n) e p =
     (case invoke e p of Inl x \<Rightarrow> Inl x | Inr p' \<Rightarrow> invoke_all n e p')"

definition emit :: "event \<Rightarrow> pump \<Rightarrow> exn + pump" where
  "emit e p = invoke_all (count_list (listeners (stream p)) (name_of e)) e p"

text \<open>The source firing a sequence of events.\<close>

fun fire :: "event list \<Rightarrow> pump \<Rightarrow> exn + pump" where
  "fire [] p = Inr p"
| "fire (e # es) p = (case emit e p of Inl x \<Rightarrow> Inl x | Inr p' \<Rightarrow> fire es p')"

text \<open>A run: calls of the consumer and events of the source, in any order.\<close>

datatype action = Start ctrl | Pull | Cancel js_value | Emit event

fun step :: "action \<Rightarrow> pump \<Rightarrow> exn + pump" where
  "step (Start c) p = Inr (start c p)"
| "step Pull p = pull p"
| "step (Cancel reason) p = cancel reason p"
| "step (Emit e) p = emit e p"

fun run :: "action list \<Rightarrow> pump \<Rightarrow> exn + pump" where
  "run [] p = Inr p"
| "run (a # as) p = (case step a p of Inl x \<Rightarrow> Inl x | Inr p' \<Rightarrow> run as p')"

subsection \<open>Notions used to state the properties\<close>





text \<open>The total of the byte lengths of the chunks enqueued to the sink so far.\<close>

fun enqueued_bytes :: "(ctrl \<times> sink_call) list \<Rightarrow> nat" where
  "enqueued_bytes [] = 0"
| "enqueued_bytes ((c, SinkEnqueue b) # xs) = length b + enqueued_bytes xs"
| "enqueued_bytes ((c, SinkError x) # xs) = enqueued_bytes xs"
| "enqueued_bytes ((c, SinkClose) # xs) = enqueued_bytes xs"

text \<open>
  A source as convertRequest passes one: an incoming request, a Readable with all three
  methods and a threshold of 16384 bytes, with no subscription of the adapter yet. And
  a bare event emitter, which has none of the three methods nor a threshold.
\<close>

definition request_source :: source where
  "request_source =
     \<lparr>readableHighWaterMark = Some 16384, readable = True, has_pause = True,
      has_resume = True, has_destroy = True, listeners = [], calls = []\<rparr>"

definition bare_source :: source where
  "bare_source =
     \<lparr>readableHighWaterMark = None, readable = True, has_pause = False,
      has_resume = False, has_destroy = False, listeners = [], calls = []\<rparr>"

definition request_pump :: pump where
  "request_pump =
     \<lparr>highWaterMark = 16384, accumalatedSize = 0, stream = request_source,
      controller = None, sink = []\<rparr>"

definition bare_pump :: pump where
  "bare_pump =
     \<lparr>highWaterMark = 16384, accumalatedSize = 0, stream = bare_source,
      controller = None, sink = []\<rparr>"

section \<open>Properties\<close>

subsection \<open>What each operation returns\<close>

lemma pause_eq:
  "pause p =
     Inr (if has_pause (stream p)
          then p\<lparr>stream := (stream p)\<lparr>calls := calls (stream p) @ [Pause]\<rparr>\<rparr> else p)"
  by (simp add: pause_def src_pause_def)

lemma resume_eq:
  "resume p =
     Inr (if readable (stream p) \<and> has_resume (stream p)
          then p\<lparr>stream := (stream p)\<lparr>calls := calls (stream p) @ [Resume]\<rparr>\<rparr> else p)"
  by (simp add: resume_def src_resume_def)

lemma cancel_eq:
  "cancel x p =
     Inr (p\<lparr>stream := unsubscribe (if has_destroy (stream p)
               then (stream p)\<lparr>calls := calls (stream p) @ [Destroy x]\<rparr> else stream p)\<rparr>)"
  by (simp add: cancel_def src_destroy_def)

lemma src_off_fields [simp]:
  "calls (src_off ev s) = calls s"
  "readable (src_off ev s) = readable s"
  "has_pause (src_off ev s) = has_pause s"
  "has_resume (src_off ev s) = has_resume s"
  "has_destroy (src_off ev s) = has_destroy s"
  "readableHighWaterMark (src_off ev s) = readableHighWaterMark s"
  "listeners (src_off ev s) = rev (remove1 ev (rev (listeners s)))"
  by (simp_all add: src_off_def)

lemma unsubscribe_fields [simp]:
  "calls (unsubscribe s) = calls s"
  "readable (unsubscribe s) = readable s"
  "has_pause (unsubscribe s) = has_pause s"
  "has_resume (unsubscribe s) = has_resume s"
  "has_destroy (unsubscribe s) = has_destroy s"
  by (simp_all add: unsubscribe_def)





subsection \<open>The data callback\<close>

lemma enqueue_bytes:
  assumes "controller p = Some c" and "to_bytes chunk = Inr b"
  shows "enqueue chunk d p =
     Inr (if desired_or_zero d - int (length b) \<le> 0 \<and> has_pause (stream p)
          then p\<lparr>stream := (stream p)\<lparr>calls := calls (stream p) @ [Pause]\<rparr>,
                 sink := sink p @ [(c, SinkEnqueue b)]\<rparr>
          else p\<lparr>sink := sink p @ [(c, SinkEnqueue b)]\<rparr>)"
  using assms by (simp add: enqueue_def Let_def pause_eq sink_call_def)



subsection \<open>Events after the handle is cleared\<close>




subsection \<open>Chunks that convert, while the handle is held\<close>


subsection \<open>The counter is never written\<close>

lemma enqueue_accumalated:
  "\<exists>q. enqueue chunk d p = Inr q \<and> accumalatedSize q = accumalatedSize p"
  by (simp add: enqueue_def enqueue_catch_def Let_def pause_eq cancel_eq sink_call_def
      split: option.split sum.split)

lemma invoke_accumalated:
  "\<exists>q. invoke e p = Inr q \<and> accumalatedSize q = accumalatedSize p"
proof (cases e)
  case (Data chunk d)
  then show ?thesis
    using enqueue_accumalated [of chunk d p] by (simp add: invoke_def)
qed (simp_all add: invoke_def close_def error_def sink_call_def split: option.split)

lemma invoke_all_accumalated:
  "\<exists>q. invoke_all n e p = Inr q \<and> accumalatedSize q = accumalatedSize p"
proof (induction n arbitrary: p)
  case 0
  then show ?case by simp
next
  case (Suc n)
  obtain q where q: "invoke e p = Inr q" "accumalatedSize q = accumalatedSize p"
    using invoke_accumalated by blast
  from Suc.IH [of q] q show ?case by auto
qed

lemma step_accumalated:
  "\<exists>q. step a p = Inr q \<and> accumalatedSize q = accumalatedSize p"
proof (cases a)
  case (Emit e)
  then show ?thesis
    using invoke_all_accumalated by (simp add: emit_def)
qed (simp_all add: start_def pull_def resume_eq cancel_eq)

lemma run_accumalated:
  "\<exists>q. run as p = Inr q \<and> accumalatedSize q = accumalatedSize p"
proof (induction as arbitrary: p)
  case Nil
  then show ?case by simp
next
  case (Cons a as)
  obtain q where q: "step a p = Inr q" "accumalatedSize q = accumalatedSize p"
    using step_accumalated by blast
  from Cons.IH [of q] q show ?case by auto
qed

section \<open>The properties of the specification\<close>





text \<open>
  C3. A chunk that converts, arriving while the handle is held, is enqueued, and the
  adapter's pause runs exactly when the desired size read from the sink (0 for a null
  reading) minus the chunk's byte length is at most 0; a source that has a pause method
  then receives one pause call, and otherwise no call at all. A pull after it makes
  one resume call on a source that is readable and has a resume method, and none on any
  other.
\<close>

theorem pump_backpressure:
  assumes "controller p = Some c" and "to_bytes chunk = Inr b"
  shows "desired_or_zero (Some n) = n
         \<and> (\<exists>q. enqueue chunk d p = Inr q
              \<and> sink q = sink p @ [(c, SinkEnqueue b)]
              \<and> (if desired_or_zero d - int (length b) \<le> 0
                  then Inr q = pause (sink_call c (SinkEnqueue b) p)
                       \<and> calls (stream q) =
                           calls (stream p) @ (if has_pause (stream p) then [Pause] else [])
                  else q = sink_call c (SinkEnqueue b) p
                       \<and> calls (stream q) = calls (stream p))
              \<and> (\<exists>r. pull q = Inr r \<and> sink r = sink q
                    \<and> calls (stream r) = calls (stream q) @
                        (if readable (stream q) \<and> has_resume (stream q) then [Resume] else [])))"
  using assms
  by (simp add: enqueue_bytes desired_or_zero_def pause_eq sink_call_def pull_def resume_eq)

theorem pump_backpressure_witness:
  "controller (start 7 request_pump) = Some 7
   \<and> to_bytes (BufferFrom [97, 98]) = Inr [97, 98]
   \<and> enqueue (BufferFrom [97, 98]) (Some 2) (start 7 request_pump)
       = Inr (start 7 request_pump\<lparr>stream := (stream (start 7 request_pump))\<lparr>calls := [Pause]\<rparr>,
                                    sink := [(7, SinkEnqueue [97, 98])]\<rparr>)
   \<and> enqueue (BufferFrom [97, 98]) (Some 3) (start 7 request_pump)
       = Inr (start 7 request_pump\<lparr>sink := [(7, SinkEnqueue [97, 98])]\<rparr>)
   \<and> pull (start 7 request_pump\<lparr>stream := (stream (start 7 request_pump))\<lparr>calls := [Pause]\<rparr>,
                                   sink := [(7, SinkEnqueue [97, 98])]\<rparr>)
       = Inr (start 7 request_pump\<lparr>stream := (stream (start 7 request_pump))\<lparr>calls := [Pause, Resume]\<rparr>,
                                    sink := [(7, SinkEnqueue [97, 98])]\<rparr>)"
  using pump_backpressure [of "start 7 request_pump" 7 "BufferFrom [97, 98]" "[97, 98]" 2 "Some 2"]
  by (simp add: request_pump_def request_source_def start_def src_on_def src_once_def
      enqueue_def desired_or_zero_def sink_call_def pause_eq pull_def resume_eq)






text \<open>
  C6. On a source without a threshold the constructor does not fall back to the
  platform's default: the fallback reads \<^verbatim>\<open>Stream\<close>, a name test.js never
  binds, and the constructor throws. A source that has a threshold takes it over.
\<close>

theorem constructor_without_threshold:
  "constructor 16384 bare_source = Inl (ReferenceError ''Stream is not defined'')
   \<and> constructor 16384 request_source = Inr request_pump"
  by (simp add: constructor_def bare_source_def request_source_def request_pump_def
      default_high_water_mark_def module_scope_def)

text \<open>
  C7. In every state of the adapter cancel returns normally and leaves the sink's
  trace as it is: the first time, a second time right after, and after the close
  callback has run.
\<close>

theorem pump_cancel_idempotent:
  "\<exists>q r u. cancel x p = Inr q \<and> sink q = sink p
         \<and> cancel y q = Inr r \<and> sink r = sink p
         \<and> cancel z (close p) = Inr u \<and> sink u = sink (close p)"
  by (simp add: cancel_eq)

theorem pump_cancel_idempotent_witness:
  "run [Start 7, Emit (Data (Uint8Array [97]) (Some 10)), Emit End] request_pump
     = Inr (request_pump\<lparr>stream := request_source\<lparr>listeners := [EvData, EvError, EvClose]\<rparr>,
                         sink := [(7, SinkEnqueue [97]), (7, SinkClose)]\<rparr>)
   \<and> run [Cancel Undefined, Cancel (Opaque 3)]
        (request_pump\<lparr>stream := request_source\<lparr>listeners := [EvData, EvError, EvClose]\<rparr>,
                       sink := [(7, SinkEnqueue [97]), (7, SinkClose)]\<rparr>)
     = Inr (request_pump\<lparr>stream := request_source\<lparr>calls := [Destroy Undefined, Destroy (Opaque 3)]\<rparr>,
                         sink := [(7, SinkEnqueue [97]), (7, SinkClose)]\<rparr>)"
  using pump_cancel_idempotent [of Undefined
      "request_pump\<lparr>stream := request_source\<lparr>listeners := [EvData, EvError, EvClose]\<rparr>,
                     sink := [(7, SinkEnqueue [97]), (7, SinkClose)]\<rparr>" "Opaque 3" Undefined]
  by (simp add: request_pump_def request_source_def start_def src_on_def src_once_def
      emit_def invoke_def enqueue_def desired_or_zero_def sink_call_def close_def
      cancel_eq unsubscribe_def src_off_def)

text \<open>
  C8, as the code has it. The constructor sets the counter to 0 and no operation
  writes it: after any run of consumer calls and source events, which always returns,
  it is still 0.
\<close>

theorem accumulated_size_constant:
  assumes "constructor dflt s = Inr p0"
  shows "accumalatedSize p0 = 0 \<and> (\<exists>q. run as p0 = Inr q \<and> accumalatedSize q = 0)"
proof -
  have "accumalatedSize p0 = 0"
    using assms by (auto simp: constructor_def split: sum.splits)
  with run_accumalated [of as p0] show ?thesis by auto
qed

theorem accumulated_size_constant_witness:
  "constructor 16384 request_source = Inr request_pump
   \<and> run [Start 7, Emit (Data (Uint8Array [97, 98]) (Some 10)), Pull, Emit End] request_pump
       = Inr (request_pump\<lparr>stream := request_source\<lparr>listeners := [EvData, EvError, EvClose],
                                                     calls := [Resume]\<rparr>,
                           sink := [(7, SinkEnqueue [97, 98]), (7, SinkClose)]\<rparr>)
   \<and> accumalatedSize
        (request_pump\<lparr>stream := request_source\<lparr>listeners := [EvData, EvError, EvClose],
                                                 calls := [Resume]\<rparr>,
                       sink := [(7, SinkEnqueue [97, 98]), (7, SinkClose)]\<rparr>) = 0"
  using accumulated_size_constant [of 16384 request_source request_pump
      "[Start 7, Emit (Data (Uint8Array [97, 98]) (Some 10)), Pull, Emit End]"]
  by (simp add: constructor_def request_pump_def request_source_def start_def src_on_def
      src_once_def emit_def invoke_def enqueue_def desired_or_zero_def sink_call_def
      pull_def resume_eq close_def src_off_def)

text \<open>
  C8 with a counter that adds up does not hold, from the first chunk on: after a chunk of two bytes has been
  enqueued, the total of the bytes enqueued is 2 and the counter is 0.
\<close>

theorem accumulated_size_counterexample:
  "fire [Data (Uint8Array [97, 98]) (Some 10)] (start 7 request_pump)
     = Inr (request_pump\<lparr>stream := request_source\<lparr>listeners := [EvData, EvError, EvEnd, EvClose]\<rparr>,
                         controller := Some 7,
                         sink := [(7, SinkEnqueue [97, 98])]\<rparr>)
   \<and> enqueued_bytes [(7, SinkEnqueue [97, 98])] = 2
   \<and> accumalatedSize
        (request_pump\<lparr>stream := request_source\<lparr>listeners := [EvData, EvError, EvEnd, EvClose]\<rparr>,
                       controller := Some 7,
                       sink := [(7, SinkEnqueue [97, 98])]\<rparr>) = 0"
  by (simp add: request_pump_def request_source_def start_def src_on_def src_once_def
      emit_def invoke_def enqueue_def desired_or_zero_def sink_call_def)

text \<open>
  C9. The adapter's pause, pull and cancel return normally on every source. On a source
  without a pause method pause changes nothing, on one without a resume method pull
  changes nothing, and on one without a destroy method cancel only removes the
  adapter's subscriptions.
\<close>

theorem pump_missing_capabilities:
  "(\<not> has_pause (stream p) \<longrightarrow> pause p = Inr p)
   \<and> (\<not> has_resume (stream p) \<longrightarrow> pull p = Inr p)
   \<and> (\<not> has_destroy (stream p) \<longrightarrow>
        cancel reason p = Inr (p\<lparr>stream := unsubscribe (stream p)\<rparr>))
   \<and> (\<exists>q. pause p = Inr q) \<and> (\<exists>q. pull p = Inr q) \<and> (\<exists>q. cancel reason p = Inr q)"
  by (simp add: pause_eq pull_def resume_eq cancel_eq)

theorem pump_missing_capabilities_witness:
  "\<not> has_pause (stream (start 7 bare_pump))
   \<and> \<not> has_resume (stream (start 7 bare_pump))
   \<and> \<not> has_destroy (stream (start 7 bare_pump))
   \<and> pause (start 7 bare_pump) = Inr (start 7 bare_pump)
   \<and> pull (start 7 bare_pump) = Inr (start 7 bare_pump)
   \<and> cancel Undefined (start 7 bare_pump) = Inr (bare_pump\<lparr>controller := Some 7\<rparr>)"
  using pump_missing_capabilities [of "start 7 bare_pump" Undefined]
  by (simp add: bare_pump_def bare_source_def start_def src_on_def src_once_def
      unsubscribe_def src_off_def)

text \<open>
  C10. When the desired size reads null or undefined as a chunk that converts arrives
  while the handle is held, the data callback does what it does on a reading of 0: the
  chunk is enqueued and pause runs right after, whatever the chunk's length, so a
  source that has a pause method receives one pause call.
\<close>

theorem pump_null_desired_size:
  assumes "controller p = Some c" and "to_bytes chunk = Inr b"
  shows "enqueue chunk None p = enqueue chunk (Some 0) p
         \<and> enqueue chunk None p = pause (sink_call c (SinkEnqueue b) p)
         \<and> (\<exists>q. enqueue chunk None p = Inr q
               \<and> sink q = sink p @ [(c, SinkEnqueue b)]
               \<and> calls (stream q) =
                   calls (stream p) @ (if has_pause (stream p) then [Pause] else []))"
  using assms
  by (simp add: enqueue_bytes desired_or_zero_def pause_eq sink_call_def)

theorem pump_null_desired_size_witness:
  "controller (start 7 request_pump) = Some 7
   \<and> to_bytes (Uint8Array []) = Inr []
   \<and> enqueue (Uint8Array []) None (start 7 request_pump)
       = Inr (start 7 request_pump\<lparr>stream := (stream (start 7 request_pump))\<lparr>calls := [Pause]\<rparr>,
                                    sink := [(7, SinkEnqueue [])]\<rparr>)"
  using pump_null_desired_size [of "start 7 request_pump" 7 "Uint8Array []" "[]"]
  by (simp add: request_pump_def request_source_def start_def src_on_def src_once_def
      enqueue_def desired_or_zero_def sink_call_def pause_eq)

end
